theory Spec2Isabelle
  imports Complex_Main "HOL-Library.AList"
begin

section \<open>GPM IMERG rainfall extraction for the Panchganga basin\<close>

text \<open>
  A shallow embedding of \<^verbatim>\<open>Source codes/gee_panchganga_rainfall_extraction.js\<close>.
  The script sets out to build two tables on the Earth Engine platform: one row per
  (day, taluka) and one row per (year, month, taluka). The platform's primitives that the script calls
  (dates, lists, image collections, reducers) are modelled here by their list and
  arithmetic meaning; the script's own functions keep their names.
\<close>

subsection \<open>Dates\<close>

text \<open>
  An \<^verbatim>\<open>ee.Date\<close> is an instant: milliseconds since 1970-01-01T00:00 UTC. A date literal
  \<^verbatim>\<open>'YYYY-MM-DD'\<close> is kept as its three numbers.
\<close>

type_synonym civil = "int \<times> int \<times> int"
type_synonym ee_Date = int

definition ms_per_day :: int where
  "ms_per_day = 86400000"

definition days_from_civil :: "int \<Rightarrow> int \<Rightarrow> int \<Rightarrow> int" where
  "days_from_civil y m d =
     (let y' = (if m \<le> 2 then y - 1 else y);
          era = y' div 400;
          yoe = y' - era * 400;
          mp = (if m > 2 then m - 3 else m + 9);
          doy = (153 * mp + 2) div 5 + d - 1;
          doe = yoe * 365 + yoe div 4 - yoe div 100 + doy
      in era * 146097 + doe - 719468)"

definition civil_from_days :: "int \<Rightarrow> civil" where
  "civil_from_days z =
     (let z' = z + 719468;
          era = z' div 146097;
          doe = z' - era * 146097;
          yoe = (doe - doe div 1460 + doe div 36524 - doe div 146096) div 365;
          y = yoe + era * 400;
          doy = doe - (365 * yoe + yoe div 4 - yoe div 100);
          mp = (5 * doy + 2) div 153;
          d = doy - (153 * mp + 2) div 5 + 1;
          m = (if mp < 10 then mp + 3 else mp - 9)
      in (if m \<le> 2 then y + 1 else y, m, d))"

definition is_leap :: "int \<Rightarrow> bool" where
  "is_leap y = (y mod 4 = 0 \<and> (y mod 100 \<noteq> 0 \<or> y mod 400 = 0))"

definition days_in_month :: "int \<Rightarrow> int \<Rightarrow> int" where
  "days_in_month y m =
     (if m = 2 then (if is_leap y then 29 else 28)
      else if m = 4 \<or> m = 6 \<or> m = 9 \<or> m = 11 then 30 else 31)"

definition valid_date :: "civil \<Rightarrow> bool" where
  "valid_date c = (case c of (y, m, d) \<Rightarrow>
     0 \<le> y \<and> y \<le> 9999 \<and> 1 \<le> m \<and> m \<le> 12 \<and> 1 \<le> d \<and> d \<le> days_in_month y m)"

text \<open>\<^verbatim>\<open>ee.Date.fromYMD(year, month, day)\<close>: midnight UTC of that calendar date.\<close>

definition ee_Date_fromYMD :: "int \<Rightarrow> int \<Rightarrow> int \<Rightarrow> ee_Date" where
  "ee_Date_fromYMD y m d = days_from_civil y m d * ms_per_day"

text \<open>
  \<^verbatim>\<open>ee.Date('YYYY-MM-DD')\<close>: midnight UTC of the date the literal names; a literal that
  names no calendar date is rejected by the platform.
\<close>

definition ee_Date :: "civil \<Rightarrow> ee_Date option" where
  "ee_Date c = (case c of (y, m, d) \<Rightarrow>
     if valid_date c then Some (ee_Date_fromYMD y m d) else None)"

text \<open>\<^verbatim>\<open>date.advance(k, 'day')\<close>.\<close>

definition advance_day :: "int \<Rightarrow> ee_Date \<Rightarrow> ee_Date" where
  "advance_day k t = t + k * ms_per_day"

text \<open>
  \<^verbatim>\<open>date.advance(k, 'month')\<close>: the same day of the month and time of day, \<open>k\<close>
  months later, the day clamped to the length of the target month.
\<close>

definition advance_month :: "int \<Rightarrow> ee_Date \<Rightarrow> ee_Date" where
  "advance_month k t =
     (case civil_from_days (t div ms_per_day) of (y, m, d) \<Rightarrow>
        let mi = y * 12 + (m - 1) + k;
            y' = mi div 12;
            m' = mi mod 12 + 1;
            d' = min d (days_in_month y' m')
        in days_from_civil y' m' d' * ms_per_day + t mod ms_per_day)"

text \<open>
  \<^verbatim>\<open>a.difference(b, 'day')\<close>: the number of days from \<open>b\<close> to \<open>a\<close>. Both
  arguments of the script are midnights, where the quotient is exact.
\<close>

definition difference_day :: "ee_Date \<Rightarrow> ee_Date \<Rightarrow> int" where
  "difference_day a b = (a - b) div ms_per_day"

text \<open>\<^verbatim>\<open>date.format('YYYY-MM-dd')\<close>.\<close>

definition digit :: "int \<Rightarrow> char" where
  "digit n = ''0123456789'' ! nat (n mod 10)"

definition format_YYYY_MM_dd :: "ee_Date \<Rightarrow> string" where
  "format_YYYY_MM_dd t =
     (case civil_from_days (t div ms_per_day) of (y, m, d) \<Rightarrow>
        [digit (y div 1000), digit (y div 100), digit (y div 10), digit y] @ ''-'' @
        [digit (m div 10), digit m] @ ''-'' @ [digit (d div 10), digit d])"

subsection \<open>Lists and objects\<close>

text \<open>\<^verbatim>\<open>ee.List.sequence(a, b)\<close>: the numbers from \<open>a\<close> to \<open>b\<close> inclusive, step 1.\<close>

definition ee_List_sequence :: "int \<Rightarrow> int \<Rightarrow> int list" where
  "ee_List_sequence a b = [a..b]"

text \<open>
  A JavaScript object literal: a later entry with a name already present replaces the
  value and keeps the place of the first; an entry named \<^verbatim>\<open>__proto__\<close> sets the
  prototype and creates no key.
\<close>

type_synonym 'v js_object = "(string \<times> 'v) list"

definition js_object :: "(string \<times> 'v) list \<Rightarrow> 'v js_object" where
  "js_object entries =
     foldl (\<lambda>obj (k, v). if k = ''__proto__'' then obj else AList.update k v obj) [] entries"

text \<open>
  \<^verbatim>\<open>Object.keys(obj)\<close>: the names that are array indices (canonical decimal numerals
  below \<open>2^32 - 1\<close>) first, in ascending numeric order, then the other names in
  insertion order.
\<close>

definition is_digit :: "char \<Rightarrow> bool" where
  "is_digit c = (c \<in> set ''0123456789'')"

definition index_value :: "string \<Rightarrow> nat" where
  "index_value s = foldl (\<lambda>a c. 10 * a + (of_char c - 48)) 0 s"

definition is_array_index :: "string \<Rightarrow> bool" where
  "is_array_index s =
     (s \<noteq> [] \<and> list_all is_digit s \<and> (hd s \<noteq> CHR ''0'' \<or> length s = 1) \<and>
      length s \<le> 10 \<and> index_value s < 4294967295)"

definition Object_keys :: "'v js_object \<Rightarrow> string list" where
  "Object_keys obj =
     (let ks = map fst obj
      in sort_key index_value (filter is_array_index ks) @
         filter (\<lambda>k. \<not> is_array_index k) ks)"

definition obj_get :: "'v js_object \<Rightarrow> string \<Rightarrow> 'v option" where
  "obj_get obj k = map_of obj k"

subsection \<open>Geometries, images and image collections\<close>

datatype geometry = Point real real | Rectangle real real real real

text \<open>
  An image of the collection carries its start time and one band,
  \<^verbatim>\<open>precipitationCal\<close>; the band is given by the value that a \<^verbatim>\<open>first\<close> reducer at
  the 10 km scale reads at a geometry, \<open>None\<close> where the pixel is masked.
\<close>

type_synonym band = "geometry \<Rightarrow> real option"

record image =
  time_start :: ee_Date
  precipitationCal :: band

type_synonym image_collection = "image list"

text \<open>\<^verbatim>\<open>collection.filterDate(start, end)\<close>: start inclusive, end exclusive.\<close>

definition filterDate :: "ee_Date \<Rightarrow> ee_Date \<Rightarrow> image_collection \<Rightarrow> image_collection" where
  "filterDate s e col = filter (\<lambda>im. s \<le> time_start im \<and> time_start im < e) col"

text \<open>
  \<^verbatim>\<open>collection.select('precipitationCal')\<close>: the one band of the model. The script
  selects it when it loads \<^verbatim>\<open>imerg\<close> and again in both extraction functions; the
  model selects once, after the last date filter.
\<close>

definition select_precipitationCal :: "image_collection \<Rightarrow> band list" where
  "select_precipitationCal col = map precipitationCal col"

text \<open>
  \<^verbatim>\<open>collection.sum()\<close>: per pixel, the sum of the unmasked inputs; masked where no
  input has a value.
\<close>

definition ic_sum :: "band list \<Rightarrow> band" where
  "ic_sum bs = (\<lambda>g. let vs = List.map_filter (\<lambda>b. b g) bs
                     in if vs = [] then None else Some (sum_list vs))"

definition multiply :: "band \<Rightarrow> real \<Rightarrow> band" where
  "multiply b c = (\<lambda>g. map_option (\<lambda>v. v * c) (b g))"

text \<open>
  \<^verbatim>\<open>image.reduceRegion({reducer: ee.Reducer.first(), geometry: point, scale: 10000})
  .get('precipitationCal')\<close>: the value at the point, or null.
\<close>

definition reduceRegion_first :: "band \<Rightarrow> geometry \<Rightarrow> real option" where
  "reduceRegion_first b g = b g"

subsection \<open>Features\<close>

text \<open>
  An \<^verbatim>\<open>ee.Feature(null, properties)\<close>: its properties in the order written. A reduced
  value that is null stays a null property.
\<close>

datatype property = PString string | PNumber real | PNull

type_synonym feature = "(string \<times> property) list"

definition number_or_null :: "real option \<Rightarrow> property" where
  "number_or_null v = (case v of None \<Rightarrow> PNull | Some x \<Rightarrow> PNumber x)"

subsection \<open>The script\<close>

text \<open>
  The literals of the script: the two dates (line 8-9), the basin rectangle (line 12-15),
  the entries of \<^verbatim>\<open>talukas\<close> in the order written (line 18-32) and the two bounds
  of the year list (line 134). \<open>reference_config\<close> holds the values as shipped.
\<close>

record config =
  startDate :: civil
  endDate :: civil
  basin :: geometry
  talukas :: "(string \<times> geometry) list"
  years_from :: int
  years_to :: int

definition reference_config :: config where
  "reference_config = \<lparr>
     startDate = (2006, 1, 1),
     endDate = (2025, 12, 31),
     basin = Rectangle 73.5 15.9 74.7 17.0,
     talukas = [
       (''Karvir'', Point 74.2433 16.705),
       (''Panhala'', Point 74.1167 16.8167),
       (''Shahuwadi'', Point 74.4833 16.6167),
       (''Kagal'', Point 74.3167 16.5833),
       (''Hatkanangle'', Point 74.45 16.4333),
       (''Shirol'', Point 74.4667 16.7167),
       (''Radhanagari'', Point 73.9833 16.4167),
       (''Gaganbawada'', Point 73.7667 16.55),
       (''Bhudargad'', Point 74.0667 16.0167),
       (''Gadhinglaj'', Point 74.35 16.2333),
       (''Chandgad'', Point 74.2333 15.9833),
       (''Ajra'', Point 73.9667 16.1167)],
     years_from = 2006,
     years_to = 2025 \<rparr>"

text \<open>
  \<^verbatim>\<open>imerg\<close>: the catalogue's collection restricted to the study window (line 35-37).
\<close>

definition imerg :: "ee_Date \<Rightarrow> ee_Date \<Rightarrow> image_collection \<Rightarrow> image_collection" where
  "imerg s e catalog = filterDate s e catalog"

text \<open>The image \<^verbatim>\<open>daily\<close> of \<^verbatim>\<open>extractDailyRainfall\<close> (line 41-48).\<close>

definition daily :: "image_collection \<Rightarrow> ee_Date \<Rightarrow> band" where
  "daily img date =
     (let start = date; end = advance_day 1 start
      in multiply (ic_sum (select_precipitationCal (filterDate start end img))) 0.5)"

definition daily_feature :: "band \<Rightarrow> ee_Date \<Rightarrow> geometry js_object \<Rightarrow> string \<Rightarrow> feature" where
  "daily_feature dly start obj talukaName =
     (let v = (case obj_get obj talukaName of
                 None \<Rightarrow> None
               | Some point \<Rightarrow> reduceRegion_first dly point)
      in [(''date'', PString (format_YYYY_MM_dd start)),
          (''taluka'', PString talukaName),
          (''rainfall_mm'', number_or_null v)])"

definition extractDailyRainfall ::
    "image_collection \<Rightarrow> geometry js_object \<Rightarrow> ee_Date \<Rightarrow> feature list" where
  "extractDailyRainfall img obj date =
     map (daily_feature (daily img date) date obj) (Object_keys obj)"

text \<open>\<^verbatim>\<open>days\<close> and \<^verbatim>\<open>dates\<close> (line 71-74).\<close>

definition days :: "ee_Date \<Rightarrow> ee_Date \<Rightarrow> int list" where
  "days s e = ee_List_sequence 0 (difference_day e s - 1)"

definition dates :: "ee_Date \<Rightarrow> ee_Date \<Rightarrow> ee_Date list" where
  "dates s e = map (\<lambda>day. advance_day day s) (days s e)"

text \<open>\<^verbatim>\<open>rainfallData\<close> (line 77): the per-date collections, flattened.\<close>

definition rainfallData ::
    "image_collection \<Rightarrow> geometry js_object \<Rightarrow> ee_Date \<Rightarrow> ee_Date \<Rightarrow> feature list" where
  "rainfallData img obj s e = concat (map (extractDailyRainfall img obj) (dates s e))"

text \<open>The image \<^verbatim>\<open>monthly\<close> of \<^verbatim>\<open>extractMonthlyRainfall\<close> (line 105-111).\<close>

definition monthly :: "image_collection \<Rightarrow> int \<times> int \<Rightarrow> band" where
  "monthly img yearMonth =
     (let year = fst yearMonth; month = snd yearMonth;
          start = ee_Date_fromYMD year month 1;
          end = advance_month 1 start
      in multiply (ic_sum (select_precipitationCal (filterDate start end img))) 0.5)"

definition monthly_feature ::
    "band \<Rightarrow> int \<times> int \<Rightarrow> geometry js_object \<Rightarrow> string \<Rightarrow> feature" where
  "monthly_feature mly yearMonth obj talukaName =
     (let v = (case obj_get obj talukaName of
                 None \<Rightarrow> None
               | Some point \<Rightarrow> reduceRegion_first mly point)
      in [(''year'', PNumber (of_int (fst yearMonth))),
          (''month'', PNumber (of_int (snd yearMonth))),
          (''taluka'', PString talukaName),
          (''rainfall_mm'', number_or_null v)])"

text \<open>
  A function handed to \<^verbatim>\<open>ee.List.map\<close> is called once, in the browser, on a
  placeholder for an element of the list; what it returns is the expression the platform
  evaluates for each element. The placeholder is a bare \<^verbatim>\<open>ee.ComputedObject\<close>: it has
  the methods of no list, date or number until the function casts it.
\<close>

datatype client_class = ComputedObject | ee_List_object

definition has_get :: "client_class \<Rightarrow> bool" where
  "has_get c = (c = ee_List_object)"

datatype script_error = InvalidDate | TypeError

definition ee_List_map ::
    "(client_class \<Rightarrow> script_error + ('a \<Rightarrow> 'b)) \<Rightarrow> 'a list \<Rightarrow> script_error + 'b list" where
  "ee_List_map f xs =
     (case f ComputedObject of
        Inl err \<Rightarrow> Inl err
      | Inr g \<Rightarrow> Inr (map g xs))"

text \<open>
  \<^verbatim>\<open>extractMonthlyRainfall\<close> (line 101-131). Its first statement calls
  \<^verbatim>\<open>yearMonth.get(0)\<close> on the argument as it comes, with no cast: on an object
  without that method the call throws a TypeError. (\<^verbatim>\<open>extractDailyRainfall\<close> casts
  its argument, \<^verbatim>\<open>ee.Date(date)\<close>, and so accepts the placeholder.)
\<close>

definition extractMonthlyRainfall ::
    "image_collection \<Rightarrow> geometry js_object \<Rightarrow> client_class \<Rightarrow>
     script_error + (int \<times> int \<Rightarrow> feature list)" where
  "extractMonthlyRainfall img obj c =
     (if has_get c
      then Inr (\<lambda>yearMonth.
             map (monthly_feature (monthly img yearMonth) yearMonth obj) (Object_keys obj))
      else Inl TypeError)"

text \<open>
  \<^verbatim>\<open>yearMonths\<close> (line 134-140): for each year in turn, the twelve
  \<^verbatim>\<open>[year, month]\<close> lists, flattened. The callbacks of these two maps call no method
  on their arguments. What \<^verbatim>\<open>flatten\<close> leaves of each pair is the platform's; the
  script reads no element of the list (see \<open>monthlyData\<close>).
\<close>

definition months :: "int list" where
  "months = ee_List_sequence 1 12"

definition yearMonths :: "int \<Rightarrow> int \<Rightarrow> (int \<times> int) list" where
  "yearMonths y0 y1 =
     concat (map (\<lambda>year. map (\<lambda>month. (year, month)) months) (ee_List_sequence y0 y1))"

text \<open>
  \<^verbatim>\<open>monthlyData\<close> (line 142): \<^verbatim>\<open>yearMonths.map(extractMonthlyRainfall)\<close>,
  flattened.
\<close>

definition monthlyData ::
    "image_collection \<Rightarrow> geometry js_object \<Rightarrow> int \<Rightarrow> int \<Rightarrow> script_error + feature list" where
  "monthlyData img obj y0 y1 =
     (case ee_List_map (extractMonthlyRainfall img obj) (yearMonths y0 y1) of
        Inl err \<Rightarrow> Inl err
      | Inr collections \<Rightarrow> Inr (concat collections))"

text \<open>
  The whole script, statement by statement: what it has handed to the platform when it
  ends (export tasks, console lines, the map's centre and layers) and the error that ended
  it, if any. The daily export, its two console lines and the map come first (line 77-98);
  the monthly export and its two console lines (line 145-153) are reached only when
  \<^verbatim>\<open>monthlyData\<close> (line 142) is built. A date literal that names no calendar date is
  rejected by the platform.
\<close>

datatype printed = PSize nat | PSample "feature list"

record script_run =
  exports :: "(string \<times> feature list) list"
  console :: "(string \<times> printed) list"
  centre :: "(geometry \<times> nat) list"
  layers :: "(geometry \<times> string \<times> string) list"
  raised :: "script_error option"

definition run_script :: "config \<Rightarrow> image_collection \<Rightarrow> script_run" where
  "run_script cfg catalog =
     (case (ee_Date (startDate cfg), ee_Date (endDate cfg)) of
        (Some s, Some e) \<Rightarrow>
          let obj = js_object (talukas cfg);
              img = imerg s e catalog;
              rd = rainfallData img obj s e;
              daily_export = (''Panchganga_Rainfall_Taluka_Wise_2006_2025'', rd);
              daily_lines = [(''Total number of records:'', PSize (length rd)),
                             (''Sample data:'', PSample (take 20 rd))];
              the_layers = (basin cfg, ''blue'', ''Panchganga Basin'') #
                        map (\<lambda>talukaName.
                               (case obj_get obj talukaName of
                                  Some g \<Rightarrow> (g, ''red'', talukaName)
                                | None \<Rightarrow> (basin cfg, ''red'', talukaName)))
                            (Object_keys obj)
          in (case monthlyData img obj (years_from cfg) (years_to cfg) of
                Inl err \<Rightarrow>
                  \<lparr> exports = [daily_export],
                    console = daily_lines,
                    centre = [(basin cfg, 9)],
                    layers = the_layers,
                    raised = Some err \<rparr>
              | Inr md \<Rightarrow>
                  \<lparr> exports = [daily_export,
                               (''Panchganga_Rainfall_Monthly_Taluka_Wise_2006_2025'', md)],
                    console = daily_lines @
                              [(''Monthly data records:'', PSize (length md)),
                               (''Monthly sample:'', PSample (take 20 md))],
                    centre = [(basin cfg, 9)],
                    layers = the_layers,
                    raised = None \<rparr>)
      | _ \<Rightarrow>
          \<lparr> exports = [], console = [], centre = [], layers = [],
            raised = Some InvalidDate \<rparr>)"

text \<open>The table handed to \<^verbatim>\<open>Export.table.toDrive\<close> under a description, if any was.\<close>

definition exported :: "config \<Rightarrow> image_collection \<Rightarrow> string \<Rightarrow> feature list option" where
  "exported cfg catalog description = map_of (exports (run_script cfg catalog)) description"

definition Dataset_daily :: "config \<Rightarrow> image_collection \<Rightarrow> feature list option" where
  "Dataset_daily cfg catalog = exported cfg catalog ''Panchganga_Rainfall_Taluka_Wise_2006_2025''"

definition Dataset_monthly :: "config \<Rightarrow> image_collection \<Rightarrow> feature list option" where
  "Dataset_monthly cfg catalog =
     exported cfg catalog ''Panchganga_Rainfall_Monthly_Taluka_Wise_2006_2025''"

subsection \<open>Notions used to state the properties\<close>

text \<open>
  The native samples of a collection at a geometry: the unmasked band values of its
  images, in collection order.
\<close>

definition samples :: "geometry \<Rightarrow> image_collection \<Rightarrow> real list" where
  "samples g col = List.map_filter (\<lambda>im. precipitationCal im g) col"

text \<open>Bands for concrete collections: one value everywhere, or masked at one geometry.\<close>

definition uniform_band :: "real \<Rightarrow> band" where
  [simp]: "uniform_band v = (\<lambda>g. Some v)"


section \<open>Lists, objects and row counts\<close>

lemma length_Object_keys: "length (Object_keys obj) = length obj"
proof -
  have "length (filter is_array_index (map fst obj)) +
        length (filter (\<lambda>k. \<not> is_array_index k) (map fst obj)) = length (map fst obj)"
    by (rule sum_length_filter_compl)
  then show ?thesis by (simp add: Object_keys_def Let_def)
qed

lemma set_Object_keys: "set (Object_keys obj) = fst ` set obj"
  by (auto simp: Object_keys_def Let_def)

lemma distinct_Object_keys: "distinct (map fst obj) \<Longrightarrow> distinct (Object_keys obj)"
  by (auto simp: Object_keys_def Let_def)

lemma nth_concat_uniform:
  "(\<And>x. x \<in> set xs \<Longrightarrow> length (f x) = n) \<Longrightarrow> i < length xs \<Longrightarrow> j < n \<Longrightarrow>
   concat (map f xs) ! (i * n + j) = f (xs ! i) ! j"
proof (induction xs arbitrary: i)
  case Nil
  then show ?case by simp
next
  case (Cons x xs)
  show ?case
  proof (cases i)
    case 0
    with Cons.prems show ?thesis by (simp add: nth_append)
  next
    case (Suc i')
    have len: "length (f x) = n" using Cons.prems(1) by simp
    have "concat (map f xs) ! (i' * n + j) = f (xs ! i') ! j"
      using Cons.prems Suc by (intro Cons.IH) auto
    then show ?thesis using Suc len by (simp add: nth_append)
  qed
qed

lemma length_concat_uniform:
  "(\<And>x. x \<in> set xs \<Longrightarrow> length (f x) = n) \<Longrightarrow> length (concat (map f xs)) = length xs * n"
  by (induction xs) auto

lemma nth_concat_div_mod:
  assumes "\<And>x. x \<in> set xs \<Longrightarrow> length (f x) = n" and "k < length xs * n"
  shows "concat (map f xs) ! k = f (xs ! (k div n)) ! (k mod n)"
proof -
  have n: "0 < n" using assms(2) by (cases n) auto
  have i: "k div n < length xs" using assms(2) n by (simp add: less_mult_imp_div_less)
  have j: "k mod n < n" using n by simp
  have "concat (map f xs) ! (k div n * n + k mod n) = f (xs ! (k div n)) ! (k mod n)"
    using assms(1) i j by (rule nth_concat_uniform)
  then show ?thesis by simp
qed

lemma length_days: "length (days s e) = nat (difference_day e s)"
  by (simp add: days_def ee_List_sequence_def)

lemma length_dates: "length (dates s e) = nat (difference_day e s)"
  by (simp add: dates_def length_days)

lemma nth_dates: "k < length (dates s e) \<Longrightarrow> dates s e ! k = s + int k * ms_per_day"
  by (simp add: dates_def days_def ee_List_sequence_def advance_day_def)

lemma set_dates:
  "set (dates s e) = (\<lambda>k. s + k * ms_per_day) ` {0 ..< difference_day e s}"
  by (auto simp: dates_def days_def ee_List_sequence_def advance_day_def)

lemma length_extractDailyRainfall: "length (extractDailyRainfall img obj date) = length obj"
  by (simp add: extractDailyRainfall_def length_Object_keys)

lemma length_rainfallData:
  "length (rainfallData img obj s e) = nat (difference_day e s) * length obj"
  unfolding rainfallData_def
  by (simp add: length_concat_uniform [where n = "length obj"] length_extractDailyRainfall length_dates)

section \<open>Calendar arithmetic\<close>

lemma ee_Date_aligned: "ee_Date c = Some t \<Longrightarrow> t = days_from_civil (fst c) (fst (snd c)) (snd (snd c)) * ms_per_day"
  by (auto simp: ee_Date_def ee_Date_fromYMD_def split: prod.splits if_splits)

lemma difference_day_aligned:
  "difference_day (b * ms_per_day) (a * ms_per_day) = b - a"
proof -
  have "b * ms_per_day - a * ms_per_day = (b - a) * ms_per_day" by (simp add: algebra_simps)
  then show ?thesis by (simp add: difference_day_def ms_per_day_def)
qed

lemma div_mult_lower: "0 < (m::int) \<Longrightarrow> x div m * m \<le> x"
  using div_mult_mod_eq [of x m] pos_mod_sign [of m x] by linarith

lemma div_mult_upper: "0 < (m::int) \<Longrightarrow> x < x div m * m + m"
  using div_mult_mod_eq [of x m] pos_mod_bound [of m x] by linarith

lemma div_less_bound:
  assumes "x < c * m" "0 < (m::int)"
  shows "x div m < c"
proof (rule ccontr)
  assume "\<not> x div m < c"
  then have "c * m \<le> x div m * m" using assms(2) by (simp add: mult_right_mono)
  then show False using div_mult_lower [OF assms(2), of x] assms(1) by linarith
qed

lemma dates_cover:
  assumes "s = a * ms_per_day" "e = b * ms_per_day" "a \<le> b"
  shows "(\<exists>d \<in> set (dates s e). d \<le> t \<and> t < advance_day 1 d) \<longleftrightarrow> (s \<le> t \<and> t < e)"
proof
  assume "\<exists>d \<in> set (dates s e). d \<le> t \<and> t < advance_day 1 d"
  then obtain k where k: "0 \<le> k" "k < b - a" "s + k * ms_per_day \<le> t" "t < s + k * ms_per_day + ms_per_day"
    using assms by (auto simp: set_dates difference_day_aligned advance_day_def)
  have "k + 1 \<le> b - a" using k by simp
  then have "(k + 1) * ms_per_day \<le> (b - a) * ms_per_day"
    by (simp add: ms_per_day_def)
  then have "s + k * ms_per_day + ms_per_day \<le> e"
    using assms by (simp add: algebra_simps)
  moreover have "s \<le> s + k * ms_per_day" using k by (simp add: ms_per_day_def)
  ultimately show "s \<le> t \<and> t < e" using k by linarith
next
  assume t: "s \<le> t \<and> t < e"
  define k where "k = (t - s) div ms_per_day"
  have pos: "0 < ms_per_day" by (simp add: ms_per_day_def)
  have k0: "0 \<le> k" using t pos by (simp add: k_def pos_imp_zdiv_nonneg_iff)
  have "t - s < (b - a) * ms_per_day" using t assms by (simp add: algebra_simps)
  then have k1: "k < b - a" unfolding k_def using pos by (rule div_less_bound)
  have lo: "k * ms_per_day \<le> t - s" unfolding k_def using pos by (rule div_mult_lower)
  have hi: "t - s < k * ms_per_day + ms_per_day"
    unfolding k_def using pos by (rule div_mult_upper)
  have "s + k * ms_per_day \<in> set (dates s e)"
    using k0 k1 assms by (auto simp: set_dates difference_day_aligned)
  moreover have "s + k * ms_per_day \<le> t \<and> t < advance_day 1 (s + k * ms_per_day)"
    using lo hi by (simp add: advance_day_def)
  ultimately show "\<exists>d \<in> set (dates s e). d \<le> t \<and> t < advance_day 1 d" by blast
qed

lemma dates_disjoint:
  assumes "i < j" "j < length (dates s e)"
  shows "advance_day 1 (dates s e ! i) \<le> dates s e ! j"
proof -
  have "int i + 1 \<le> int j" using assms by simp
  then have "(int i + 1) * ms_per_day \<le> int j * ms_per_day"
    by (simp add: ms_per_day_def)
  then show ?thesis using assms by (simp add: nth_dates advance_day_def algebra_simps)
qed

lemma ref_dates:
  "ee_Date (startDate reference_config) = Some 1136073600000"
  "ee_Date (endDate reference_config) = Some 1767139200000"
  "ee_Date_fromYMD 2025 12 30 = 1767052800000"
  by (simp_all add: reference_config_def ee_Date_def valid_date_def days_in_month_def ee_Date_fromYMD_def
      days_from_civil_def ms_per_day_def)

section \<open>Extracted values\<close>

lemma map_filter_map_comp: "List.map_filter f (map h xs) = List.map_filter (\<lambda>x. f (h x)) xs"
  by (induction xs) (simp_all add: List.map_filter_def)

lemma ic_sum_select:
  "ic_sum (select_precipitationCal col) g =
     (if samples g col = [] then None else Some (sum_list (samples g col)))"
  by (simp add: ic_sum_def select_precipitationCal_def samples_def map_filter_map_comp Let_def)

lemma daily_value:
  "reduceRegion_first (daily img date) g =
     (if samples g (filterDate date (advance_day 1 date) img) = [] then None
      else Some (sum_list (samples g (filterDate date (advance_day 1 date) img)) * 0.5))"
  by (simp add: reduceRegion_first_def daily_def multiply_def ic_sum_select Let_def)

lemma monthly_value:
  "reduceRegion_first (monthly img (y, m)) g =
     (if samples g (filterDate (ee_Date_fromYMD y m 1)
                      (advance_month 1 (ee_Date_fromYMD y m 1)) img) = [] then None
      else Some (sum_list (samples g (filterDate (ee_Date_fromYMD y m 1)
                      (advance_month 1 (ee_Date_fromYMD y m 1)) img)) * 0.5))"
  by (simp add: reduceRegion_first_def monthly_def multiply_def ic_sum_select Let_def)

section \<open>Rows of the two tables\<close>

lemma length_Object_keys_obj: "length obj = length (Object_keys obj)"
  by (simp add: length_Object_keys)

lemma nth_rainfallData:
  assumes "i < length (dates s e)" and "j < length (Object_keys obj)"
  shows "rainfallData img obj s e ! (i * length (Object_keys obj) + j) =
         daily_feature (daily img (dates s e ! i)) (dates s e ! i) obj (Object_keys obj ! j)"
proof -
  have "concat (map (extractDailyRainfall img obj) (dates s e)) ! (i * length (Object_keys obj) + j)
        = extractDailyRainfall img obj (dates s e ! i) ! j"
    using assms by (intro nth_concat_uniform) (simp_all add: extractDailyRainfall_def)
  then show ?thesis using assms by (simp add: rainfallData_def extractDailyRainfall_def)
qed

lemma nth_rainfallData_div_mod:
  assumes "k < length (rainfallData img obj s e)"
  shows "rainfallData img obj s e ! k =
         daily_feature (daily img (dates s e ! (k div length (Object_keys obj))))
           (dates s e ! (k div length (Object_keys obj))) obj
           (Object_keys obj ! (k mod length (Object_keys obj)))"
proof -
  let ?n = "length (Object_keys obj)"
  have k: "k < length (dates s e) * ?n"
    using assms by (simp add: length_rainfallData length_dates length_Object_keys)
  then have n: "0 < ?n" by (cases "?n") auto
  have i: "k div ?n < length (dates s e)" using k n by (simp add: less_mult_imp_div_less)
  have j: "k mod ?n < ?n" using n by simp
  show ?thesis using nth_rainfallData [OF i j, of img] by simp
qed

lemma sorted_dates: "sorted_wrt (<) (dates s e)"
  by (simp add: sorted_wrt_iff_nth_less nth_dates ms_per_day_def)

lemma ref_keys:
  "Object_keys (js_object (talukas reference_config)) =
     [''Karvir'', ''Panhala'', ''Shahuwadi'', ''Kagal'', ''Hatkanangle'', ''Shirol'',
      ''Radhanagari'', ''Gaganbawada'', ''Bhudargad'', ''Gadhinglaj'', ''Chandgad'', ''Ajra'']"
  by (simp add: Object_keys_def js_object_def reference_config_def is_array_index_def is_digit_def)

lemma daily_feature_props:
  "map_of (daily_feature dly d obj name) ''date'' = Some (PString (format_YYYY_MM_dd d)) \<and>
   map_of (daily_feature dly d obj name) ''taluka'' = Some (PString name)"
  by (simp add: daily_feature_def Let_def)

lemma daily_feature_missing:
  assumes "obj_get obj name = Some g"
    and "samples g (filterDate d (advance_day 1 d) img) = []"
  shows "daily_feature (daily img d) d obj name =
         [(''date'', PString (format_YYYY_MM_dd d)), (''taluka'', PString name),
          (''rainfall_mm'', PNull)]"
  using assms by (simp add: daily_feature_def daily_value number_or_null_def Let_def)




lemma ref_obj_get_Karvir:
  "obj_get (js_object (talukas reference_config)) ''Karvir'' = Some (Point 74.2433 16.705)"
  by (simp add: obj_get_def js_object_def reference_config_def)

lemma format_2006_01_02: "format_YYYY_MM_dd 1136160000000 = ''2006-01-02''"
  by code_simp

lemma reversed_dates:
  "ee_Date (startDate (reference_config\<lparr>startDate := (2025, 12, 31), endDate := (2006, 1, 1)\<rparr>)) =
     Some 1767139200000"
  "ee_Date (endDate (reference_config\<lparr>startDate := (2025, 12, 31), endDate := (2006, 1, 1)\<rparr>)) =
     Some 1136073600000"
  by (simp_all add: ee_Date_def valid_date_def days_in_month_def ee_Date_fromYMD_def
      days_from_civil_def ms_per_day_def)

section \<open>The run of the script\<close>

lemma short_dates:
  "ee_Date (startDate (reference_config\<lparr>endDate := (2006, 1, 3)\<rparr>)) = Some 1136073600000"
  "ee_Date (endDate (reference_config\<lparr>endDate := (2006, 1, 3)\<rparr>)) = Some 1136246400000"
  by (simp_all add: reference_config_def ee_Date_def valid_date_def days_in_month_def
      ee_Date_fromYMD_def days_from_civil_def ms_per_day_def)

lemma monthlyData_TypeError: "monthlyData img obj y0 y1 = Inl TypeError"
  by (simp add: monthlyData_def ee_List_map_def extractMonthlyRainfall_def has_get_def)

lemma exports_valid:
  assumes "ee_Date (startDate cfg) = Some s" and "ee_Date (endDate cfg) = Some e"
  shows "exports (run_script cfg catalog) =
           [(''Panchganga_Rainfall_Taluka_Wise_2006_2025'',
             rainfallData (imerg s e catalog) (js_object (talukas cfg)) s e)]"
  using assms by (simp add: run_script_def Let_def monthlyData_TypeError)

lemma console_valid:
  assumes "ee_Date (startDate cfg) = Some s" and "ee_Date (endDate cfg) = Some e"
  shows "console (run_script cfg catalog) =
           [(''Total number of records:'',
             PSize (length (rainfallData (imerg s e catalog) (js_object (talukas cfg)) s e))),
            (''Sample data:'',
             PSample (take 20 (rainfallData (imerg s e catalog) (js_object (talukas cfg)) s e)))]"
  using assms by (simp add: run_script_def Let_def monthlyData_TypeError)

lemma raised_valid:
  assumes "ee_Date (startDate cfg) = Some s" and "ee_Date (endDate cfg) = Some e"
  shows "raised (run_script cfg catalog) = Some TypeError"
  using assms by (simp add: run_script_def Let_def monthlyData_TypeError)

lemma Dataset_daily_eq:
  assumes "ee_Date (startDate cfg) = Some s" and "ee_Date (endDate cfg) = Some e"
  shows "Dataset_daily cfg catalog =
         Some (rainfallData (imerg s e catalog) (js_object (talukas cfg)) s e)"
  by (simp add: Dataset_daily_def exported_def exports_valid [OF assms])

lemma Dataset_monthly_None: "Dataset_monthly cfg catalog = None"
  by (simp add: Dataset_monthly_def exported_def run_script_def Let_def monthlyData_TypeError
        split: option.splits)

lemma daily_feature_value:
  assumes "obj_get obj name = Some g"
  shows "daily_feature (daily img d) d obj name =
         [(''date'', PString (format_YYYY_MM_dd d)), (''taluka'', PString name),
          (''rainfall_mm'', number_or_null (reduceRegion_first (daily img d) g))]"
  using assms by (simp add: daily_feature_def Let_def)


section \<open>The temporal index\<close>

text \<open>
  C1, as the script has it. For a study interval with end date on or after the start
  date, the daily index has exactly \<open>(end - start).days\<close> periods: one per calendar
  date from the start date up to the day before the end date. Period \<open>k\<close> starts
  \<open>k\<close> days after the start date and lasts one day; the periods do not overlap and
  together cover the instants from the start date 00:00 up to, not including, the end
  date 00:00.
\<close>

theorem daily_index_end_exclusive:
  assumes "ee_Date sd = Some s" and "ee_Date ed = Some e" and "s \<le> e"
  shows "length (dates s e) = nat (difference_day e s) \<and>
         (\<forall>k < length (dates s e). dates s e ! k = advance_day (int k) s) \<and>
         (\<forall>i j. i < j \<and> j < length (dates s e) \<longrightarrow>
                advance_day 1 (dates s e ! i) \<le> dates s e ! j) \<and>
         (\<forall>t. (\<exists>d \<in> set (dates s e). d \<le> t \<and> t < advance_day 1 d) \<longleftrightarrow> (s \<le> t \<and> t < e))"
proof -
  let ?a = "days_from_civil (fst sd) (fst (snd sd)) (snd (snd sd))"
  let ?b = "days_from_civil (fst ed) (fst (snd ed)) (snd (snd ed))"
  have s: "s = ?a * ms_per_day" using assms(1) by (rule ee_Date_aligned)
  have e: "e = ?b * ms_per_day" using assms(2) by (rule ee_Date_aligned)
  have ab: "?a \<le> ?b" using assms(3) s e by (simp add: ms_per_day_def)
  have starts: "\<forall>k < length (dates s e). dates s e ! k = advance_day (int k) s"
    by (simp add: nth_dates advance_day_def)
  have apart: "\<forall>i j. i < j \<and> j < length (dates s e) \<longrightarrow>
                 advance_day 1 (dates s e ! i) \<le> dates s e ! j"
    by (simp add: dates_disjoint)
  have cover: "\<forall>t. (\<exists>d \<in> set (dates s e). d \<le> t \<and> t < advance_day 1 d) \<longleftrightarrow> (s \<le> t \<and> t < e)"
    using dates_cover [OF s e ab] by blast
  show ?thesis using length_dates starts apart cover by blast
qed

theorem daily_index_end_exclusive_witness:
  "ee_Date (startDate reference_config) = Some 1136073600000 \<and>
   ee_Date (endDate reference_config) = Some 1767139200000 \<and>
   (1136073600000 :: int) \<le> 1767139200000 \<and>
   length (dates 1136073600000 1767139200000) = 7304 \<and>
   dates 1136073600000 1767139200000 ! 7303 = 1767052800000"
proof -
  have s: "ee_Date (startDate reference_config) = Some 1136073600000"
    and e: "ee_Date (endDate reference_config) = Some 1767139200000"
    by (rule ref_dates)+
  have le: "(1136073600000 :: int) \<le> 1767139200000" by simp
  note t = daily_index_end_exclusive [OF s e le]
  have len: "length (dates 1136073600000 1767139200000) = 7304"
    using t by (simp add: difference_day_def ms_per_day_def)
  have "dates 1136073600000 1767139200000 ! 7303 = advance_day (int 7303) 1136073600000"
    using t len by simp
  then show ?thesis using s e len by (simp add: advance_day_def ms_per_day_def)
qed

text \<open>
  C1 as stated fails on the shipped configuration: from 2006-01-01 to 2025-12-31 the
  difference is 7304 days and the index has 7304 periods, not 7305; the end date itself
  starts no period.
\<close>

theorem daily_index_inclusive_counterexample:
  "ee_Date (startDate reference_config) = Some 1136073600000 \<and>
   ee_Date (endDate reference_config) = Some 1767139200000 \<and>
   difference_day 1767139200000 1136073600000 = 7304 \<and>
   length (dates 1136073600000 1767139200000) \<noteq>
     nat (difference_day 1767139200000 1136073600000) + 1 \<and>
   1767139200000 \<notin> set (dates 1136073600000 1767139200000)"
  by (simp add: ref_dates length_dates set_dates) (auto simp: difference_day_def ms_per_day_def)

section \<open>The period extractor\<close>

text \<open>
  C2, as the script has it. For every geometry and period, the extracted value is half
  the sum of the native samples of the period: the script multiplies the summed band by
  0.5 (half-hourly rates in mm/hr to millimetres). It is null when the period has no
  unmasked sample. This holds for the daily and for the monthly extraction.
\<close>

theorem extract_is_half_the_sample_sum:
  "reduceRegion_first (daily img date) g =
     (if samples g (filterDate date (advance_day 1 date) img) = [] then None
      else Some (sum_list (samples g (filterDate date (advance_day 1 date) img)) * 0.5)) \<and>
   reduceRegion_first (monthly img (y, m)) g =
     (if samples g (filterDate (ee_Date_fromYMD y m 1)
                      (advance_month 1 (ee_Date_fromYMD y m 1)) img) = [] then None
      else Some (sum_list (samples g (filterDate (ee_Date_fromYMD y m 1)
                      (advance_month 1 (ee_Date_fromYMD y m 1)) img)) * 0.5))"
  using daily_value monthly_value by simp

theorem extract_is_half_the_sample_sum_witness:
  "reduceRegion_first
     (daily [\<lparr>time_start = 1136073600000, precipitationCal = uniform_band 1\<rparr>,
             \<lparr>time_start = 1136075400000, precipitationCal = uniform_band 2\<rparr>] 1136073600000)
     (Point 74.2433 16.705) = Some (3 / 2)"
  using extract_is_half_the_sample_sum
    [of "[\<lparr>time_start = 1136073600000, precipitationCal = uniform_band 1\<rparr>,
          \<lparr>time_start = 1136075400000, precipitationCal = uniform_band 2\<rparr>]"
        1136073600000 "Point 74.2433 16.705"]
  by (simp add: samples_def filterDate_def advance_day_def ms_per_day_def List.map_filter_def)

text \<open>
  C2 as stated fails: with the two samples 1 and 2 inside 2006-01-01, the value the
  script extracts for that day is 1.5, not their sum 3.
\<close>

theorem extract_exact_sum_counterexample:
  "samples (Point 74.2433 16.705)
     (filterDate 1136073600000 (advance_day 1 1136073600000)
       [\<lparr>time_start = 1136073600000, precipitationCal = uniform_band 1\<rparr>,
        \<lparr>time_start = 1136075400000, precipitationCal = uniform_band 2\<rparr>]) = [1, 2] \<and>
   reduceRegion_first
     (daily [\<lparr>time_start = 1136073600000, precipitationCal = uniform_band 1\<rparr>,
             \<lparr>time_start = 1136075400000, precipitationCal = uniform_band 2\<rparr>] 1136073600000)
     (Point 74.2433 16.705) \<noteq> Some (sum_list [1, 2])"
  by (simp add: daily_value samples_def filterDate_def advance_day_def ms_per_day_def
        List.map_filter_def)

section \<open>The daily dataset\<close>

text \<open>
  C3, as the script has it, for the daily dataset. In every run with two valid date
  literals the daily dataset handed to the export has exactly
  |regions| x (end - start).days rows, the end date not counted. Rows with a missing
  value are counted: for every period of the daily index and every region there is a
  row, at position (period index) x |regions| + (region index), that carries that
  period's date and that region's name.
\<close>

theorem daily_dataset_row_count:
  assumes "ee_Date (startDate cfg) = Some s" and "ee_Date (endDate cfg) = Some e"
  shows "\<exists>rd.
     Dataset_daily cfg catalog = Some rd \<and>
     length rd = length (Object_keys (js_object (talukas cfg))) * nat (difference_day e s) \<and>
     (\<forall>i j. i < length (dates s e) \<and> j < length (Object_keys (js_object (talukas cfg))) \<longrightarrow>
        map_of (rd ! (i * length (Object_keys (js_object (talukas cfg))) + j)) ''date'' =
          Some (PString (format_YYYY_MM_dd (dates s e ! i))) \<and>
        map_of (rd ! (i * length (Object_keys (js_object (talukas cfg))) + j)) ''taluka'' =
          Some (PString (Object_keys (js_object (talukas cfg)) ! j)))"
proof -
  let ?obj = "js_object (talukas cfg)"
  let ?rd = "rainfallData (imerg s e catalog) ?obj s e"
  have d: "Dataset_daily cfg catalog = Some ?rd" using assms by (rule Dataset_daily_eq)
  have ld: "length ?rd = length (Object_keys ?obj) * nat (difference_day e s)"
    by (simp add: length_rainfallData length_Object_keys)
  have rows_d: "\<forall>i j. i < length (dates s e) \<and> j < length (Object_keys ?obj) \<longrightarrow>
        map_of (?rd ! (i * length (Object_keys ?obj) + j)) ''date'' =
          Some (PString (format_YYYY_MM_dd (dates s e ! i))) \<and>
        map_of (?rd ! (i * length (Object_keys ?obj) + j)) ''taluka'' =
          Some (PString (Object_keys ?obj ! j))"
    by (simp add: nth_rainfallData daily_feature_props)
  show ?thesis using d ld rows_d by blast
qed

theorem daily_dataset_row_count_witness:
  "ee_Date (startDate reference_config) = Some 1136073600000 \<and>
   ee_Date (endDate reference_config) = Some 1767139200000 \<and>
   map_option length (Dataset_daily reference_config []) = Some 87648"
proof -
  have s: "ee_Date (startDate reference_config) = Some 1136073600000"
    and e: "ee_Date (endDate reference_config) = Some 1767139200000"
    by (rule ref_dates)+
  obtain rd where
    d: "Dataset_daily reference_config [] = Some rd" and
    ld: "length rd = length (Object_keys (js_object (talukas reference_config))) *
           nat (difference_day 1767139200000 1136073600000)"
    using daily_dataset_row_count [OF s e, of "[]"] by blast
  have "length rd = 87648" using ld by (simp add: ref_keys difference_day_def ms_per_day_def)
  then show ?thesis using s e d by simp
qed

text \<open>
  C3 as stated fails on the shipped configuration: the daily dataset has
  12 x 7304 = 87648 rows, not 12 x 7305, the interval counted with both end dates.
\<close>

theorem dataset_row_counts_inclusive_counterexample:
  "ee_Date (startDate reference_config) = Some 1136073600000 \<and>
   ee_Date (endDate reference_config) = Some 1767139200000 \<and>
   length (Object_keys (js_object (talukas reference_config))) = 12 \<and>
   map_option length (Dataset_daily reference_config []) = Some 87648 \<and>
   (87648 :: nat) \<noteq> 12 * (nat (difference_day 1767139200000 1136073600000) + 1)"
  by (simp add: ref_dates ref_keys Dataset_daily_eq [OF ref_dates(1) ref_dates(2)]
        length_rainfallData length_Object_keys [symmetric] difference_day_def ms_per_day_def)



text \<open>
  C6, for the dataset the script assembles. The rows of the daily dataset come period by
  period, in the order of the daily index, and inside a period region by region, in the
  order \<^verbatim>\<open>Object.keys(talukas)\<close> lists the catalog: row \<open>k\<close> is the row of period
  \<open>k div |regions|\<close> and region \<open>k mod |regions|\<close>. The period starts of the daily
  index are strictly ascending.
\<close>

theorem daily_dataset_ordered_by_period_then_region:
  "(\<forall>k < length (rainfallData img obj s e).
      rainfallData img obj s e ! k =
        daily_feature (daily img (dates s e ! (k div length (Object_keys obj))))
          (dates s e ! (k div length (Object_keys obj))) obj
          (Object_keys obj ! (k mod length (Object_keys obj)))) \<and>
   sorted_wrt (<) (dates s e)"
  using nth_rainfallData_div_mod [of _ img obj s e] sorted_dates [of s e]
  by blast

theorem daily_dataset_ordered_by_period_then_region_witness:
  "rainfallData (imerg 1136073600000 1767139200000 []) (js_object (talukas reference_config))
     1136073600000 1767139200000 ! 12 =
   [(''date'', PString ''2006-01-02''), (''taluka'', PString ''Karvir''), (''rainfall_mm'', PNull)]"
proof -
  let ?obj = "js_object (talukas reference_config)"
  let ?s = "1136073600000 :: int" and ?e = "1767139200000 :: int"
  let ?img = "imerg ?s ?e []"
  have k: "12 < length (rainfallData ?img ?obj ?s ?e)"
    by (simp add: length_rainfallData length_Object_keys_obj ref_keys difference_day_def ms_per_day_def)
  have d: "dates ?s ?e ! Suc 0 = 1136160000000"
    by (simp add: nth_dates length_dates difference_day_def ms_per_day_def)
  have none: "samples (Point 74.2433 16.705)
      (filterDate 1136160000000 (advance_day 1 1136160000000) ?img) = []"
    by (simp add: imerg_def filterDate_def samples_def List.map_filter_def)
  have "rainfallData ?img ?obj ?s ?e ! 12 =
        daily_feature (daily ?img (dates ?s ?e ! (12 div length (Object_keys ?obj))))
          (dates ?s ?e ! (12 div length (Object_keys ?obj))) ?obj
          (Object_keys ?obj ! (12 mod length (Object_keys ?obj)))"
    using daily_dataset_ordered_by_period_then_region [of ?img ?obj ?s ?e] k by blast
  then have "rainfallData ?img ?obj ?s ?e ! 12 =
        daily_feature (daily ?img 1136160000000) 1136160000000 ?obj ''Karvir''"
    by (simp add: ref_keys d)
  then show ?thesis
    using daily_feature_missing [OF ref_obj_get_Karvir none]
    by (simp add: format_2006_01_02)
qed

text \<open>
  C9, as the script has it. The script checks no relation between the two dates. When
  both literals are dates and the end date is before the start date, no configuration
  error stops the run before extraction: the daily index is empty, the daily dataset is
  handed to the export with no rows, and the console is told of 0 records.
\<close>

theorem reversed_interval_is_not_checked:
  assumes "ee_Date (startDate cfg) = Some s" and "ee_Date (endDate cfg) = Some e" and "e < s"
  shows "dates s e = [] \<and>
         Dataset_daily cfg catalog = Some [] \<and>
         map_of (console (run_script cfg catalog)) ''Total number of records:'' = Some (PSize 0)"
proof -
  have pos: "0 < ms_per_day" by (simp add: ms_per_day_def)
  have "e - s < 0 * ms_per_day" using assms(3) by simp
  then have "difference_day e s < 0"
    unfolding difference_day_def using pos by (rule div_less_bound)
  then have empty: "dates s e = []"
    by (simp add: dates_def days_def ee_List_sequence_def)
  then have rd: "rainfallData (imerg s e catalog) (js_object (talukas cfg)) s e = []"
    by (simp add: rainfallData_def)
  have d: "Dataset_daily cfg catalog = Some []"
    using Dataset_daily_eq [OF assms(1,2), of catalog] rd by simp
  have c: "map_of (console (run_script cfg catalog)) ''Total number of records:'' = Some (PSize 0)"
    by (simp add: console_valid [OF assms(1,2)] rd)
  show ?thesis using empty d c by simp
qed

theorem reversed_interval_is_not_checked_witness:
  "(1136073600000 :: int) < 1767139200000 \<and>
   Dataset_daily (reference_config\<lparr>startDate := (2025, 12, 31), endDate := (2006, 1, 1)\<rparr>)
     [\<lparr>time_start = 1237075200000, precipitationCal = uniform_band 2\<rparr>] = Some []"
  using reversed_interval_is_not_checked
    [OF reversed_dates, of "[\<lparr>time_start = 1237075200000, precipitationCal = uniform_band 2\<rparr>]"]
  by simp

text \<open>
  C9 as stated fails: with the shipped dates swapped (start 2025-12-31, end 2006-01-01)
  both literals are accepted and no configuration error comes before extraction; the
  script hands an empty daily table to the export and prints 0 as its number of records.
\<close>

theorem reversed_interval_error_counterexample:
  "ee_Date (startDate (reference_config\<lparr>startDate := (2025, 12, 31), endDate := (2006, 1, 1)\<rparr>)) =
     Some 1767139200000 \<and>
   ee_Date (endDate (reference_config\<lparr>startDate := (2025, 12, 31), endDate := (2006, 1, 1)\<rparr>)) =
     Some 1136073600000 \<and>
   Dataset_daily (reference_config\<lparr>startDate := (2025, 12, 31), endDate := (2006, 1, 1)\<rparr>) [] =
     Some [] \<and>
   map_of (console (run_script
       (reference_config\<lparr>startDate := (2025, 12, 31), endDate := (2006, 1, 1)\<rparr>) []))
     ''Total number of records:'' = Some (PSize 0)"
proof -
  let ?cfg = "reference_config\<lparr>startDate := (2025, 12, 31), endDate := (2006, 1, 1)\<rparr>"
  have rd: "rainfallData (imerg 1767139200000 1136073600000 []) (js_object (talukas ?cfg))
              1767139200000 1136073600000 = []"
    by (simp add: rainfallData_def dates_def days_def ee_List_sequence_def difference_day_def
          ms_per_day_def)
  have "Dataset_daily ?cfg [] = Some []"
    using Dataset_daily_eq [OF reversed_dates, of "[]"] rd by simp
  moreover have "map_of (console (run_script ?cfg [])) ''Total number of records:'' =
                   Some (PSize 0)"
    using console_valid [OF reversed_dates, of "[]"] rd by simp
  ultimately show ?thesis using reversed_dates by simp
qed

text \<open>
  C10. The basin rectangle reaches the map only. Two runs that differ only in the basin
  geometry export the same daily dataset and the same monthly dataset.
\<close>

theorem basin_does_not_reach_the_exports:
  "Dataset_daily (cfg\<lparr>basin := b\<rparr>) catalog = Dataset_daily cfg catalog \<and>
   Dataset_monthly (cfg\<lparr>basin := b\<rparr>) catalog = Dataset_monthly cfg catalog"
  by (simp add: Dataset_daily_def Dataset_monthly_def exported_def run_script_def Let_def
        monthlyData_TypeError split: option.splits)

theorem basin_does_not_reach_the_exports_witness:
  "Dataset_daily (reference_config\<lparr>basin := Rectangle 0 0 1 1\<rparr>) [] =
     Dataset_daily reference_config [] \<and>
   Dataset_monthly (reference_config\<lparr>basin := Rectangle 0 0 1 1\<rparr>) [] =
     Dataset_monthly reference_config []"
  by (rule basin_does_not_reach_the_exports)

section \<open>The monthly dataset\<close>

text \<open>
  C4, on the script. The claim is about the month window that the monthly extraction
  queries. In every run with two valid date literals the script queries no month at
  all: \<^verbatim>\<open>yearMonths.map(extractMonthlyRainfall)\<close> (line 142) calls the function on an
  uncast placeholder, \<^verbatim>\<open>yearMonth.get(0)\<close> (line 102) throws a TypeError, the run ends
  there and no monthly dataset is handed to the export.
\<close>

theorem monthly_extraction_throws:
  assumes "ee_Date (startDate cfg) = Some s" and "ee_Date (endDate cfg) = Some e"
  shows "monthlyData (imerg s e catalog) (js_object (talukas cfg)) (years_from cfg) (years_to cfg) =
           Inl TypeError \<and>
         raised (run_script cfg catalog) = Some TypeError \<and>
         Dataset_monthly cfg catalog = None"
  using raised_valid [OF assms] by (simp add: monthlyData_TypeError Dataset_monthly_None)

theorem monthly_extraction_throws_witness:
  "raised (run_script reference_config
      [\<lparr>time_start = 1767139200000, precipitationCal = uniform_band 2\<rparr>]) = Some TypeError \<and>
   Dataset_monthly reference_config
      [\<lparr>time_start = 1767139200000, precipitationCal = uniform_band 2\<rparr>] = None"
  using monthly_extraction_throws
    [OF ref_dates(1) ref_dates(2),
     of "[\<lparr>time_start = 1767139200000, precipitationCal = uniform_band 2\<rparr>]"]
  by simp

text \<open>
  C7, on the script. The claim compares a month's total with the sum of its daily
  totals. With the study interval 2006-01-01 to 2006-01-03 and a source that has samples
  on both days of the index, the daily dataset holds the two daily totals of January
  2006 for the first region (1.5 and 2), none missing, but the run ends with the
  TypeError of line 102 and hands no monthly dataset to the export: there is no monthly
  total to compare.
\<close>

theorem monthly_total_is_never_produced:
  "map_option (\<lambda>rd. [map_of (rd ! 0) ''rainfall_mm'', map_of (rd ! 12) ''rainfall_mm''])
     (Dataset_daily (reference_config\<lparr>endDate := (2006, 1, 3)\<rparr>)
        [\<lparr>time_start = 1136073600000, precipitationCal = uniform_band 1\<rparr>,
         \<lparr>time_start = 1136075400000, precipitationCal = uniform_band 2\<rparr>,
         \<lparr>time_start = 1136160000000, precipitationCal = uniform_band 4\<rparr>]) =
     Some [Some (PNumber (3 / 2)), Some (PNumber 2)] \<and>
   Dataset_monthly (reference_config\<lparr>endDate := (2006, 1, 3)\<rparr>)
        [\<lparr>time_start = 1136073600000, precipitationCal = uniform_band 1\<rparr>,
         \<lparr>time_start = 1136075400000, precipitationCal = uniform_band 2\<rparr>,
         \<lparr>time_start = 1136160000000, precipitationCal = uniform_band 4\<rparr>] = None \<and>
   raised (run_script (reference_config\<lparr>endDate := (2006, 1, 3)\<rparr>)
        [\<lparr>time_start = 1136073600000, precipitationCal = uniform_band 1\<rparr>,
         \<lparr>time_start = 1136075400000, precipitationCal = uniform_band 2\<rparr>,
         \<lparr>time_start = 1136160000000, precipitationCal = uniform_band 4\<rparr>]) = Some TypeError"
proof -
  let ?cfg = "reference_config\<lparr>endDate := (2006, 1, 3)\<rparr>"
  let ?cat = "[\<lparr>time_start = 1136073600000, precipitationCal = uniform_band 1\<rparr>,
               \<lparr>time_start = 1136075400000, precipitationCal = uniform_band 2\<rparr>,
               \<lparr>time_start = 1136160000000, precipitationCal = uniform_band 4\<rparr>]"
  let ?s = "1136073600000 :: int" and ?e = "1136246400000 :: int"
  let ?obj = "js_object (talukas reference_config)"
  let ?img = "imerg ?s ?e ?cat"
  let ?rd = "rainfallData ?img ?obj ?s ?e"
  have n: "length (Object_keys ?obj) = 12" by (simp add: ref_keys)
  have len: "length (dates ?s ?e) = 2"
    by (simp add: length_dates difference_day_def ms_per_day_def)
  have d0: "dates ?s ?e ! 0 = 1136073600000" and d1: "dates ?s ?e ! 1 = 1136160000000"
    using len by (simp_all add: nth_dates ms_per_day_def)
  have g: "obj_get ?obj (Object_keys ?obj ! 0) = Some (Point 74.2433 16.705)"
    by (simp add: ref_keys ref_obj_get_Karvir)
  have v0: "reduceRegion_first (daily ?img 1136073600000) (Point 74.2433 16.705) = Some (3 / 2)"
    by (simp add: daily_value imerg_def filterDate_def samples_def advance_day_def
          ms_per_day_def List.map_filter_def)
  have v1: "reduceRegion_first (daily ?img 1136160000000) (Point 74.2433 16.705) = Some 2"
    by (simp add: daily_value imerg_def filterDate_def samples_def advance_day_def
          ms_per_day_def List.map_filter_def)
  have i0: "0 < length (dates ?s ?e)" and i1: "1 < length (dates ?s ?e)" using len by simp_all
  have j0: "0 < length (Object_keys ?obj)" using n by simp
  have r0: "?rd ! (0 * length (Object_keys ?obj) + 0) =
            daily_feature (daily ?img (dates ?s ?e ! 0)) (dates ?s ?e ! 0) ?obj (Object_keys ?obj ! 0)"
    using i0 j0 by (rule nth_rainfallData)
  have r1: "?rd ! (1 * length (Object_keys ?obj) + 0) =
            daily_feature (daily ?img (dates ?s ?e ! 1)) (dates ?s ?e ! 1) ?obj (Object_keys ?obj ! 0)"
    using i1 j0 by (rule nth_rainfallData)
  have f0: "daily_feature (daily ?img 1136073600000) 1136073600000 ?obj (Object_keys ?obj ! 0) =
         [(''date'', PString (format_YYYY_MM_dd 1136073600000)),
          (''taluka'', PString (Object_keys ?obj ! 0)),
          (''rainfall_mm'', number_or_null (Some (3 / 2)))]"
    using daily_feature_value [OF g, of ?img 1136073600000] unfolding v0 .
  have f1: "daily_feature (daily ?img 1136160000000) 1136160000000 ?obj (Object_keys ?obj ! 0) =
         [(''date'', PString (format_YYYY_MM_dd 1136160000000)),
          (''taluka'', PString (Object_keys ?obj ! 0)),
          (''rainfall_mm'', number_or_null (Some 2))]"
    using daily_feature_value [OF g, of ?img 1136160000000] unfolding v1 .
  have m0: "map_of (?rd ! 0) ''rainfall_mm'' = Some (PNumber (3 / 2))"
    using r0 unfolding d0 f0 by (simp add: number_or_null_def)
  have m1: "map_of (?rd ! 12) ''rainfall_mm'' = Some (PNumber 2)"
    using r1 unfolding d1 f1 n by (simp add: number_or_null_def)
  have "Dataset_daily ?cfg ?cat = Some ?rd"
    using Dataset_daily_eq [OF short_dates, of ?cat] by simp
  then show ?thesis
    using m0 m1 raised_valid [OF short_dates, of ?cat] by (simp add: Dataset_monthly_None)
qed

end
